theory Spec2Isabelle
  imports Main "HOL-Library.Sublist"
begin

section \<open>The server entry point of Spoolman (spoolman/main.py)\<close>

text \<open>
  The module reads its configuration through the module \<^verbatim>\<open>spoolman.env\<close>, sets up
  logging, composes the FastAPI application, and on the startup event builds the database
  URL and hands it to \<^verbatim>\<open>setup_db\<close>. What the module imports is a parameter of the
  development: the module \<^verbatim>\<open>env\<close> as a record of what its functions return, the
  file system and \<^verbatim>\<open>setup_db\<close> as a record of the outcome of each call. A call that
  raises has the outcome \<open>Inl e\<close> (or \<open>Some e\<close> where it returns nothing), and the
  exception ends the function that made the call, as in Python.
\<close>

subsection \<open>Data\<close>

text \<open>
  \<^verbatim>\<open>env.DatabaseType\<close> is an enumeration declared in \<^verbatim>\<open>spoolman/env.py\<close>. The entry
  point names one member, \<^verbatim>\<open>SQLITE\<close>; the other members are the values of \<open>'n\<close>.
\<close>

datatype 'n DatabaseType = SQLITE | Other 'n

text \<open>The kinds of failure of the startup path.\<close>

datatype error =
  ConfigurationError | DirectoryError | StorageError | StaticDirectoryError | BindError

text \<open>
  The module \<^verbatim>\<open>spoolman.env\<close> as the entry point uses it. The getters of the connection
  settings return \<^verbatim>\<open>None\<close> for a variable that is not set, and may raise on a value they
  cannot read; \<^verbatim>\<open>get_query\<close> returns a dict, held here as the list of its items in
  insertion order. The debug flag and the logging level always have a value, a default
  when the variable is not set. \<^verbatim>\<open>to_drivername\<close> is the method of \<^verbatim>\<open>DatabaseType\<close>.
\<close>

record 'n env =
  get_database_type :: "error + 'n DatabaseType option"
  get_host :: "error + string option"
  get_port :: "error + int option"
  get_database :: "error + string option"
  get_query :: "error + (string \<times> string) list option"
  get_username :: "error + string option"
  get_password :: "error + string option"
  to_drivername :: "'n DatabaseType \<Rightarrow> string"
  is_debug_mode :: bool
  get_logging_level :: int

text \<open>
  \<^verbatim>\<open>sqlalchemy.URL\<close> is a named tuple of seven fields, and \<^verbatim>\<open>URL.create\<close> stores its
  arguments in them (an absent \<^verbatim>\<open>query\<close> would become the empty mapping).
\<close>

record URL =
  drivername :: string
  username :: "string option"
  password :: "string option"
  host :: "string option"
  port :: "int option"
  database :: "string option"
  query :: "(string \<times> string) list"

definition URL_create ::
  "string \<Rightarrow> string option \<Rightarrow> int option \<Rightarrow> string option \<Rightarrow> (string \<times> string) list
     \<Rightarrow> string option \<Rightarrow> string option \<Rightarrow> URL" where
  "URL_create drv h p d q u pw =
     \<lparr>drivername = drv, username = u, password = pw, host = h, port = p, database = d,
      query = q\<rparr>"

text \<open>
  What is outside the process: the directory \<^verbatim>\<open>user_data_dir("spoolman")\<close>, the outcome
  of creating a directory and of opening a file for writing, the outcome of the check
  that \<^verbatim>\<open>StaticFiles\<close> makes of its directory (it raises when the directory does not
  exist), the outcome of \<^verbatim>\<open>setup_db\<close> (module \<^verbatim>\<open>spoolman.database.database\<close>) on a
  URL, and the outcome of binding a host and a port.
\<close>

record world =
  user_data_dir :: string
  mkdir :: "string \<Rightarrow> error option"
  open_file :: "string \<Rightarrow> error option"
  check_dir :: "string \<Rightarrow> error option"
  setup_db :: "URL \<Rightarrow> error option"
  bind :: "string \<Rightarrow> nat \<Rightarrow> error option"

text \<open>
  A path is held as its text, in the form \<^verbatim>\<open>pathlib\<close> gives a POSIX path: no repeated
  and no trailing separator. \<^verbatim>\<open>Path.joinpath\<close> appends one component (the data directory
  is never the root directory, so a separator is always inserted).
\<close>

definition joinpath :: "string \<Rightarrow> string \<Rightarrow> string" where
  "joinpath d n = d @ ''/'' @ n"

subsection \<open>Logging\<close>

text \<open>
  A call on the module's logger is recorded with its level, its format string and its
  arguments, as \<^verbatim>\<open>logging\<close> itself keeps them in a record.
\<close>

datatype level = INFO | WARNING

datatype 'n arg =
  ArgStr string | ArgOptStr "string option" | ArgOptInt "int option" | ArgType "'n DatabaseType"

datatype 'n log_record = LogRecord level string "'n arg list"

text \<open>
  A handler of the root logger is an object: \<open>ident\<close> is its identity. \<open>FileHandler\<close>
  carries the file name and the mode, \<open>hlevel\<close> is the handler's threshold (0 is
  \<^verbatim>\<open>NOTSET\<close>), \<open>fmt\<close> and \<open>datefmt\<close> are those of its formatter.
\<close>

datatype handler_kind = FileHandler string string | StreamHandler

record handler =
  ident :: nat
  kind :: handler_kind
  hlevel :: int
  fmt :: string
  datefmt :: "string option"

text \<open>
  The state of the \<^verbatim>\<open>logging\<close> module that the entry point touches: the handlers of the
  root logger, the level of the logger \<^verbatim>\<open>spoolman\<close>, and the identity of the next object
  to be created.
\<close>

record logging =
  root_handlers :: "handler list"
  spoolman_level :: int
  next_ident :: nat

text \<open>
  \<^verbatim>\<open>logging.basicConfig\<close> does nothing when the root logger already has a handler;
  otherwise it opens the file and installs a \<^verbatim>\<open>FileHandler\<close> with the given formatter.
\<close>

definition basicConfig ::
  "world \<Rightarrow> string \<Rightarrow> string \<Rightarrow> string \<Rightarrow> string \<Rightarrow> logging \<Rightarrow> error + logging" where
  "basicConfig w filename filemode format dfmt lg =
     (if root_handlers lg = [] then
        (case open_file w filename of
           Some e \<Rightarrow> Inl e
         | None \<Rightarrow>
             Inr (lg\<lparr>root_handlers :=
                       [\<lparr>ident = next_ident lg, kind = FileHandler filename filemode,
                         hlevel = 0, fmt = format, datefmt = Some dfmt\<rparr>],
                     next_ident := Suc (next_ident lg)\<rparr>))
      else Inr lg)"

text \<open>
  \<^verbatim>\<open>Logger.addHandler\<close> appends the handler unless that very object is already in the
  list.
\<close>

definition addHandler :: "handler \<Rightarrow> logging \<Rightarrow> logging" where
  "addHandler h lg =
     (if ident h \<in> set (map ident (root_handlers lg)) then lg
      else lg\<lparr>root_handlers := root_handlers lg @ [h]\<rparr>)"

text \<open>
  Lines 22 to 39: the file logger, the level of the logger \<^verbatim>\<open>spoolman\<close>, and a new
  console handler added to the root logger.
\<close>

definition logging_setup :: "'n env \<Rightarrow> world \<Rightarrow> logging \<Rightarrow> error + logging" where
  "logging_setup env w lg =
     (case basicConfig w (joinpath (user_data_dir w) ''spoolman.log'') ''w''
             ''%(asctime)s:%(levelname)s:%(message)s'' ''%Y-%m-%d %I:%M:%S%p'' lg of
        Inl e \<Rightarrow> Inl e
      | Inr lg1 \<Rightarrow>
          (let lg2 = lg1\<lparr>spoolman_level := get_logging_level env\<rparr>;
               console = \<lparr>ident = next_ident lg2, kind = StreamHandler,
                          hlevel = get_logging_level env,
                          fmt = ''%(name)-12s: %(levelname)-8s %(message)s'',
                          datefmt = None\<rparr>;
               lg3 = lg2\<lparr>next_ident := Suc (next_ident lg2)\<rparr>
           in Inr (addHandler console lg3)))"

text \<open>Invoking the logging setup \<open>k\<close> times in a row, stopping at the first failure.\<close>

fun logging_setup_times :: "nat \<Rightarrow> 'n env \<Rightarrow> world \<Rightarrow> logging \<Rightarrow> error + logging" where
  "logging_setup_times 0 env w lg = Inr lg"
| "logging_setup_times (Suc k) env w lg =
     (case logging_setup env w lg of
        Inl e \<Rightarrow> Inl e
      | Inr lg' \<Rightarrow> logging_setup_times k env w lg')"

definition file_sinks :: "logging \<Rightarrow> handler list" where
  "file_sinks lg = filter (\<lambda>h. kind h \<noteq> StreamHandler) (root_handlers lg)"

definition console_sinks :: "logging \<Rightarrow> handler list" where
  "console_sinks lg = filter (\<lambda>h. kind h = StreamHandler) (root_handlers lg)"

text \<open>Every handler was created before the next object: identities are not reused.\<close>

definition fresh_idents :: "logging \<Rightarrow> bool" where
  "fresh_idents lg = list_all (\<lambda>h. ident h < next_ident lg) (root_handlers lg)"

definition initial_logging :: logging where
  "initial_logging = \<lparr>root_handlers = [], spoolman_level = 0, next_ident = 0\<rparr>"

subsection \<open>The application\<close>

datatype asgi_app = v1_app | StaticFiles string bool

record Mount =
  path :: string
  sub_app :: asgi_app
  name :: "string option"

record CORSMiddleware =
  allow_origins :: "string list"
  allow_credentials :: bool
  allow_methods :: "string list"
  allow_headers :: "string list"

record FastAPI =
  debug :: bool
  routes :: "Mount list"
  user_middleware :: "CORSMiddleware list"

definition mount :: "string \<Rightarrow> asgi_app \<Rightarrow> string option \<Rightarrow> FastAPI \<Rightarrow> FastAPI" where
  "mount p a n app = app\<lparr>routes := routes app @ [\<lparr>path = p, sub_app = a, name = n\<rparr>]\<rparr>"

definition add_middleware :: "CORSMiddleware \<Rightarrow> FastAPI \<Rightarrow> FastAPI" where
  "add_middleware m app = app\<lparr>user_middleware := m # user_middleware app\<rparr>"

text \<open>
  Lines 45 to 59: the application with its two mounts and, in debug mode, the warning
  and the middleware that allows all origins. The result is the application and the
  records logged. The check of the directory of \<^verbatim>\<open>StaticFiles\<close> (line 47), which may
  raise, is made by \<open>module_body\<close> before it composes the application.
\<close>

definition create_app :: "'n env \<Rightarrow> FastAPI \<times> 'n log_record list" where
  "create_app env =
     (let app0 = \<lparr>debug = is_debug_mode env, routes = [], user_middleware = []\<rparr>;
          app1 = mount ''/api/v1'' v1_app None app0;
          app2 = mount ''/'' (StaticFiles ''client/dist'' True) (Some ''client'') app1
      in if is_debug_mode env then
           (add_middleware
              \<lparr>allow_origins = [''*''], allow_credentials = True,
               allow_methods = [''*''], allow_headers = [''*'']\<rparr> app2,
            [LogRecord WARNING ''Running in debug mode, allowing all origins.'' []])
         else (app2, []))"

subsection \<open>The connection URL\<close>

text \<open>The Python expression \<^verbatim>\<open>query or {}\<close>: the dict when it is true, else a new empty one.\<close>

definition or_empty :: "(string \<times> string) list option \<Rightarrow> (string \<times> string) list" where
  "or_empty q = (case q of None \<Rightarrow> [] | Some kv \<Rightarrow> if kv \<noteq> [] then kv else [])"

text \<open>
  Lines 72 to 87 of \<^verbatim>\<open>get_connection_url\<close>, on the values the getters returned: the
  default for an absent database type, the record logged, and the URL.
\<close>

definition build_url ::
  "'n env \<Rightarrow> string \<Rightarrow> 'n DatabaseType option \<Rightarrow> string option \<Rightarrow> int option \<Rightarrow> string option
     \<Rightarrow> (string \<times> string) list option \<Rightarrow> string option \<Rightarrow> string option
     \<Rightarrow> URL \<times> 'n log_record list" where
  \<open>build_url env data_dir db_type h p d q u pw =
     (case db_type of
        None \<Rightarrow>
          (let db_type' = SQLITE;
               d' = joinpath data_dir ''spoolman.db''
           in (URL_create (to_drivername env db_type') h p (Some d') (or_empty q) u pw,
               [LogRecord INFO
                  ''No database type specified, using a default SQLite database located at "%s"''
                  [ArgStr d']]))
      | Some t \<Rightarrow>
          (URL_create (to_drivername env t) h p d (or_empty q) u pw,
           [LogRecord INFO ''Connecting to database of type "%s" at "%s:%s"''
              [ArgType t, ArgOptStr h, ArgOptInt p]]))\<close>

text \<open>
  \<^verbatim>\<open>get_connection_url\<close>: lines 64 to 70 call the getters in this order, and the first
  one that raises ends the function.
\<close>

definition get_connection_url :: "'n env \<Rightarrow> string \<Rightarrow> error + (URL \<times> 'n log_record list)" where
  "get_connection_url env data_dir =
     (case get_database_type env of Inl e \<Rightarrow> Inl e | Inr db_type \<Rightarrow>
     (case get_host env of Inl e \<Rightarrow> Inl e | Inr h \<Rightarrow>
     (case get_port env of Inl e \<Rightarrow> Inl e | Inr p \<Rightarrow>
     (case get_database env of Inl e \<Rightarrow> Inl e | Inr d \<Rightarrow>
     (case get_query env of Inl e \<Rightarrow> Inl e | Inr q \<Rightarrow>
     (case get_username env of Inl e \<Rightarrow> Inl e | Inr u \<Rightarrow>
     (case get_password env of Inl e \<Rightarrow> Inl e | Inr pw \<Rightarrow>
        Inr (build_url env data_dir db_type h p d q u pw))))))))"

text \<open>Modelled from the spec: \<^verbatim>\<open>env.get_database_type\<close>, of the module
  \<^verbatim>\<open>spoolman.env\<close>, whose source is missing. A variable that is not set gives the
  absent marker; a value that names a variant gives the variant; a value that names
  none is a configuration error. \<open>variant_of\<close> is the table of the recognised values.
\<close>

definition read_database_type ::
  "(string \<Rightarrow> 'n DatabaseType option) \<Rightarrow> string option \<Rightarrow> error + 'n DatabaseType option" where
  "read_database_type variant_of raw =
     (case raw of
        None \<Rightarrow> Inr None
      | Some s \<Rightarrow>
          (case variant_of s of None \<Rightarrow> Inl ConfigurationError | Some t \<Rightarrow> Inr (Some t)))"

subsection \<open>The process\<close>

text \<open>
  The stages of the startup, and the state of the process: the logging state, the
  application once composed, the records logged, the URLs that \<^verbatim>\<open>setup_db\<close> was called
  with, the stages entered so far in order, and the exception that ended the process,
  if any.
\<close>

datatype stage = LoggingSetup | DescriptorConstruction | StorageInitialization | Serving

record 'n proc =
  logging_state :: logging
  application :: "FastAPI option"
  emitted :: "'n log_record list"
  storage_calls :: "URL list"
  entered :: "stage list"
  failure :: "error option"

definition initial_proc :: "'n proc" where
  "initial_proc =
     \<lparr>logging_state = initial_logging, application = None, emitted = [], storage_calls = [],
      entered = [], failure = None\<rparr>"

text \<open>
  The body of the module, lines 18 to 59: the data directory is created, logging is set
  up, the application is composed. \<^verbatim>\<open>StaticFiles(directory="client/dist", html=True)\<close>
  on line 47 raises when the directory does not exist; the module then ends with the
  logging set up and no application.
\<close>

definition module_body :: "'n env \<Rightarrow> world \<Rightarrow> 'n proc \<Rightarrow> 'n proc" where
  "module_body env w p =
     (case mkdir w (user_data_dir w) of
        Some e \<Rightarrow> p\<lparr>failure := Some e\<rparr>
      | None \<Rightarrow>
          (let p1 = p\<lparr>entered := entered p @ [LoggingSetup]\<rparr> in
           (case logging_setup env w (logging_state p1) of
              Inl e \<Rightarrow> p1\<lparr>failure := Some e\<rparr>
            | Inr lg \<Rightarrow>
                (let p2 = p1\<lparr>logging_state := lg\<rparr> in
                 (case check_dir w ''client/dist'' of
                    Some e \<Rightarrow> p2\<lparr>failure := Some e\<rparr>
                  | None \<Rightarrow>
                      (let (app, recs) = create_app env
                       in p2\<lparr>application := Some app,
                             emitted := emitted p2 @ recs\<rparr>))))))"

text \<open>
  The startup handler, lines 90 to 93: \<^verbatim>\<open>await setup_db(get_connection_url())\<close>. The
  argument is evaluated first; \<^verbatim>\<open>setup_db\<close> is called only with its value.
\<close>

definition startup :: "'n env \<Rightarrow> world \<Rightarrow> 'n proc \<Rightarrow> 'n proc" where
  "startup env w p =
     (let p1 = p\<lparr>entered := entered p @ [DescriptorConstruction]\<rparr> in
      (case get_connection_url env (user_data_dir w) of
         Inl e \<Rightarrow> p1\<lparr>failure := Some e\<rparr>
       | Inr (url, recs) \<Rightarrow>
           (let p2 = p1\<lparr>emitted := emitted p1 @ recs,
                        storage_calls := storage_calls p1 @ [url],
                        entered := entered p1 @ [StorageInitialization]\<rparr> in
            (case setup_db w url of
               Some e \<Rightarrow> p2\<lparr>failure := Some e\<rparr>
             | None \<Rightarrow> p2))))"

text \<open>
  \<^verbatim>\<open>uvicorn.run(app, host="0.0.0.0", port=8000)\<close>, line 97: the server runs the startup
  handler of the application; an exception in the handler ends the process. Once the
  handler has returned the server binds the address, and ends the process when it cannot;
  it serves once the address is bound.
\<close>

definition uvicorn_run :: "'n env \<Rightarrow> world \<Rightarrow> 'n proc \<Rightarrow> 'n proc" where
  "uvicorn_run env w p =
     (let p1 = startup env w p in
      if failure p1 = None then
        (case bind w ''0.0.0.0'' 8000 of
           Some e \<Rightarrow> p1\<lparr>failure := Some e\<rparr>
         | None \<Rightarrow> p1\<lparr>entered := entered p1 @ [Serving]\<rparr>)
      else p1)"

text \<open>The whole run of the module as a script: its body, then line 97.\<close>

definition main :: "'n env \<Rightarrow> world \<Rightarrow> 'n proc" where
  "main env w =
     (let p = module_body env w initial_proc in
      if failure p = None then uvicorn_run env w p else p)"

text \<open>The order of the stages of a run in which nothing fails.\<close>

definition stage_order :: "stage list" where
  "stage_order = [LoggingSetup, DescriptorConstruction, StorageInitialization, Serving]"

subsection \<open>Example inputs\<close>

text \<open>
  An instance of the module \<^verbatim>\<open>env\<close> with one variant besides \<^verbatim>\<open>SQLITE\<close>, and a world in
  which every call succeeds.
\<close>

fun example_drivername :: "unit DatabaseType \<Rightarrow> string" where
  "example_drivername SQLITE = ''sqlite+aiosqlite''"
| "example_drivername (Other _) = ''postgresql+asyncpg''"

definition env_unset :: "unit env" where
  "env_unset =
     \<lparr>get_database_type = Inr None, get_host = Inr None, get_port = Inr None,
      get_database = Inr None, get_query = Inr None, get_username = Inr None,
      get_password = Inr None, to_drivername = example_drivername,
      is_debug_mode = False, get_logging_level = 20\<rparr>"

definition env_network_fields :: "unit env" where
  "env_network_fields =
     env_unset\<lparr>get_host := Inr (Some ''db.local''), get_port := Inr (Some 5432),
               get_database := Inr (Some ''spools''),
               get_query := Inr (Some [(''sslmode'', ''require'')]),
               get_username := Inr (Some ''alice''), get_password := Inr (Some ''secret'')\<rparr>"

definition env_postgres :: "unit env" where
  "env_postgres = env_network_fields\<lparr>get_database_type := Inr (Some (Other ()))\<rparr>"

fun example_variant_of :: "string \<Rightarrow> unit DatabaseType option" where
  "example_variant_of s =
     (if s = ''sqlite'' then Some SQLITE
      else if s = ''postgres'' then Some (Other ())
      else None)"

definition env_unknown_type :: "unit env" where
  "env_unknown_type =
     env_network_fields\<lparr>get_database_type :=
                          read_database_type example_variant_of (Some ''oracle'')\<rparr>"

definition world_ok :: world where
  "world_ok =
     \<lparr>user_data_dir = ''/home/u/.local/share/spoolman'', mkdir = (\<lambda>_. None),
      open_file = (\<lambda>_. None), check_dir = (\<lambda>_. None), setup_db = (\<lambda>_. None),
      bind = (\<lambda>_ _. None)\<rparr>"

definition world_no_log_file :: world where
  "world_no_log_file = world_ok\<lparr>open_file := (\<lambda>_. Some DirectoryError)\<rparr>"

definition world_no_storage :: world where
  "world_no_storage = world_ok\<lparr>setup_db := (\<lambda>_. Some StorageError)\<rparr>"

definition world_no_static_dir :: world where
  "world_no_static_dir = world_ok\<lparr>check_dir := (\<lambda>_. Some StaticDirectoryError)\<rparr>"

definition world_port_taken :: world where
  "world_port_taken = world_ok\<lparr>bind := (\<lambda>_ _. Some BindError)\<rparr>"

definition env_debug :: "unit env" where
  "env_debug = env_unset\<lparr>is_debug_mode := True\<rparr>"

section \<open>Properties\<close>

subsection \<open>The connection URL\<close>

lemma or_empty_eq: "or_empty q = (case q of None \<Rightarrow> [] | Some kv \<Rightarrow> kv)"
  by (simp add: or_empty_def split: option.split)

lemma get_connection_url_returns:
  assumes "get_database_type env = Inr t" "get_host env = Inr h" "get_port env = Inr p"
    "get_database env = Inr d" "get_query env = Inr q" "get_username env = Inr u"
    "get_password env = Inr pw"
  shows "get_connection_url env dd = Inr (build_url env dd t h p d q u pw)"
  using assms by (simp add: get_connection_url_def)

lemma get_connection_url_raises:
  "get_database_type env = Inl e \<Longrightarrow> get_connection_url env dd = Inl e"
  by (simp add: get_connection_url_def)

lemma build_url_absent:
  "fst (build_url env dd None h p d q u pw) =
     \<lparr>drivername = to_drivername env SQLITE, username = u, password = pw, host = h, port = p,
      database = Some (joinpath dd ''spoolman.db''), query = or_empty q\<rparr>"
  by (simp add: build_url_def URL_create_def Let_def)

lemma build_url_present:
  "fst (build_url env dd (Some t) h p d q u pw) =
     \<lparr>drivername = to_drivername env t, username = u, password = pw, host = h, port = p,
      database = d, query = or_empty q\<rparr>"
  by (simp add: build_url_def URL_create_def)

lemma build_url_query: "query (fst (build_url env dd t h p d q u pw)) = or_empty q"
  by (cases t) (simp_all add: build_url_absent build_url_present)

text \<open>
  Claim C1, as the code has it: when \<^verbatim>\<open>get_database_type\<close> returns \<^verbatim>\<open>None\<close>, the URL
  built has the driver of \<^verbatim>\<open>SQLITE\<close>, and the host, port, username and password that
  the getters returned are passed to \<^verbatim>\<open>URL.create\<close> unchanged: they are in the URL.
\<close>

theorem absent_type_passes_network_fields:
  assumes "get_database_type env = Inr None" "get_host env = Inr h" "get_port env = Inr p"
    "get_database env = Inr d" "get_query env = Inr q" "get_username env = Inr u"
    "get_password env = Inr pw"
  shows "\<exists>url recs. get_connection_url env dd = Inr (url, recs) \<and>
           drivername url = to_drivername env SQLITE \<and>
           host url = h \<and> port url = p \<and> username url = u \<and> password url = pw"
proof -
  let ?r = "build_url env dd None h p d q u pw"
  have "get_connection_url env dd = Inr (fst ?r, snd ?r)"
    using get_connection_url_returns [OF assms, of dd] by simp
  moreover have "drivername (fst ?r) = to_drivername env SQLITE" "host (fst ?r) = h"
    "port (fst ?r) = p" "username (fst ?r) = u" "password (fst ?r) = pw"
    by (simp_all add: build_url_absent)
  ultimately show ?thesis by blast
qed

theorem absent_type_passes_network_fields_witness:
  "get_database_type env_network_fields = Inr None \<and>
   (\<exists>url recs. get_connection_url env_network_fields ''/data'' = Inr (url, recs) \<and>
      drivername url = ''sqlite+aiosqlite'' \<and> host url = Some ''db.local'' \<and>
      port url = Some 5432 \<and> username url = Some ''alice'' \<and>
      password url = Some ''secret'')"
  using absent_type_passes_network_fields [of env_network_fields "Some ''db.local''"
      "Some 5432" "Some ''spools''" "Some [(''sslmode'', ''require'')]" "Some ''alice''"
      "Some ''secret''" "''/data''"]
  by (simp add: env_unset_def env_network_fields_def)

text \<open>
  Claim C1 as stated fails: with no database type and a host, a port, a username and a
  password set, all four appear in the URL of the default SQLite database.
\<close>

theorem absent_type_ignores_network_fields_counterexample:
  "get_database_type env_network_fields = Inr None \<and>
   map_sum id fst (get_connection_url env_network_fields ''/data'') =
     Inr \<lparr>drivername = ''sqlite+aiosqlite'', username = Some ''alice'',
          password = Some ''secret'', host = Some ''db.local'', port = Some 5432,
          database = Some ''/data/spoolman.db'', query = [(''sslmode'', ''require'')]\<rparr>"
  by (simp add: env_unset_def env_network_fields_def get_connection_url_def build_url_def
      URL_create_def or_empty_def joinpath_def Let_def)

text \<open>
  Claim C2: when \<^verbatim>\<open>get_database_type\<close> returns a type, the URL has the driver of that
  type and, unchanged, the host, port, database name, username and password that the
  getters returned (\<^verbatim>\<open>None\<close> for one that is not set), and the query is the mapping
  returned, item by item (the empty mapping when there is none).
\<close>

theorem present_type_preserves_fields:
  assumes "get_database_type env = Inr (Some t)" "get_host env = Inr h" "get_port env = Inr p"
    "get_database env = Inr d" "get_query env = Inr q" "get_username env = Inr u"
    "get_password env = Inr pw"
  shows "\<exists>url recs. get_connection_url env dd = Inr (url, recs) \<and>
           drivername url = to_drivername env t \<and>
           host url = h \<and> port url = p \<and> database url = d \<and>
           username url = u \<and> password url = pw \<and>
           query url = (case q of None \<Rightarrow> [] | Some kv \<Rightarrow> kv)"
proof -
  let ?r = "build_url env dd (Some t) h p d q u pw"
  have "get_connection_url env dd = Inr (fst ?r, snd ?r)"
    using get_connection_url_returns [OF assms, of dd] by simp
  moreover have "drivername (fst ?r) = to_drivername env t" "host (fst ?r) = h"
    "port (fst ?r) = p" "database (fst ?r) = d" "username (fst ?r) = u"
    "password (fst ?r) = pw" "query (fst ?r) = (case q of None \<Rightarrow> [] | Some kv \<Rightarrow> kv)"
    by (simp_all add: build_url_present or_empty_eq)
  ultimately show ?thesis by blast
qed

theorem present_type_preserves_fields_witness:
  "get_database_type env_postgres = Inr (Some (Other ())) \<and>
   (\<exists>url recs. get_connection_url env_postgres ''/data'' = Inr (url, recs) \<and>
      drivername url = ''postgresql+asyncpg'' \<and> host url = Some ''db.local'' \<and>
      port url = Some 5432 \<and> database url = Some ''spools'' \<and>
      username url = Some ''alice'' \<and> password url = Some ''secret'' \<and>
      query url = [(''sslmode'', ''require'')])"
  using present_type_preserves_fields [of env_postgres "Other ()" "Some ''db.local''"
      "Some 5432" "Some ''spools''" "Some [(''sslmode'', ''require'')]" "Some ''alice''"
      "Some ''secret''" "''/data''"]
  by (simp add: env_unset_def env_network_fields_def env_postgres_def)

text \<open>
  Claim C9: when \<^verbatim>\<open>get_query\<close> returns \<^verbatim>\<open>None\<close>, \<^verbatim>\<open>get_connection_url\<close> still returns
  a URL, and the query of that URL is the empty mapping.
\<close>

theorem absent_query_gives_empty_mapping:
  assumes "get_query env = Inr None" "get_database_type env = Inr t" "get_host env = Inr h"
    "get_port env = Inr p" "get_database env = Inr d" "get_username env = Inr u"
    "get_password env = Inr pw"
  shows "\<exists>url recs. get_connection_url env dd = Inr (url, recs) \<and> query url = []"
proof -
  let ?r = "build_url env dd t h p d None u pw"
  have "get_connection_url env dd = Inr (fst ?r, snd ?r)"
    using get_connection_url_returns [OF assms(2-5) assms(1) assms(6-7), of dd] by simp
  moreover have "query (fst ?r) = []"
    by (simp add: build_url_query or_empty_eq)
  ultimately show ?thesis by blast
qed

theorem absent_query_gives_empty_mapping_witness:
  "get_query (env_postgres\<lparr>get_query := Inr None\<rparr>) = Inr None \<and>
   (\<exists>url recs. get_connection_url (env_postgres\<lparr>get_query := Inr None\<rparr>) ''/data''
        = Inr (url, recs) \<and> query url = [])"
  using absent_query_gives_empty_mapping [of "env_postgres\<lparr>get_query := Inr None\<rparr>"
      "Some (Other ())" "Some ''db.local''" "Some 5432" "Some ''spools''" "Some ''alice''"
      "Some ''secret''" "''/data''"]
  by (simp add: env_unset_def env_network_fields_def env_postgres_def)

text \<open>
  Claim C10: when \<^verbatim>\<open>get_database_type\<close> returns \<^verbatim>\<open>None\<close>, the database of the URL is
  the file \<^verbatim>\<open>spoolman.db\<close> in the data directory whatever \<^verbatim>\<open>get_database\<close> returned, and
  the query is still the mapping that \<^verbatim>\<open>get_query\<close> returned.
\<close>

theorem absent_type_replaces_database_keeps_query:
  assumes "get_database_type env = Inr None" "get_host env = Inr h" "get_port env = Inr p"
    "get_database env = Inr d" "get_query env = Inr q" "get_username env = Inr u"
    "get_password env = Inr pw"
  shows "\<exists>url recs. get_connection_url env dd = Inr (url, recs) \<and>
           database url = Some (joinpath dd ''spoolman.db'') \<and>
           query url = (case q of None \<Rightarrow> [] | Some kv \<Rightarrow> kv)"
proof -
  let ?r = "build_url env dd None h p d q u pw"
  have "get_connection_url env dd = Inr (fst ?r, snd ?r)"
    using get_connection_url_returns [OF assms, of dd] by simp
  moreover have "database (fst ?r) = Some (joinpath dd ''spoolman.db'')"
    "query (fst ?r) = (case q of None \<Rightarrow> [] | Some kv \<Rightarrow> kv)"
    by (simp_all add: build_url_absent or_empty_eq)
  ultimately show ?thesis by blast
qed

theorem absent_type_replaces_database_keeps_query_witness:
  "get_database_type env_network_fields = Inr None \<and>
   get_database env_network_fields = Inr (Some ''spools'') \<and>
   (\<exists>url recs. get_connection_url env_network_fields ''/data'' = Inr (url, recs) \<and>
      database url = Some ''/data/spoolman.db'' \<and>
      query url = [(''sslmode'', ''require'')])"
  using absent_type_replaces_database_keeps_query [of env_network_fields
      "Some ''db.local''" "Some 5432" "Some ''spools''" "Some [(''sslmode'', ''require'')]"
      "Some ''alice''" "Some ''secret''" "''/data''"]
  by (simp add: env_unset_def env_network_fields_def joinpath_def)

subsection \<open>Logging\<close>

lemma basicConfig_installed:
  "root_handlers lg \<noteq> [] \<Longrightarrow> basicConfig w f m fm df lg = Inr lg"
  by (simp add: basicConfig_def)

lemma addHandler_fresh:
  "fresh_idents lg \<Longrightarrow> ident h = next_ident lg \<Longrightarrow>
   addHandler h (lg\<lparr>next_ident := Suc (next_ident lg)\<rparr>) =
     lg\<lparr>next_ident := Suc (next_ident lg), root_handlers := root_handlers lg @ [h]\<rparr>"
  by (auto simp: addHandler_def fresh_idents_def list_all_iff)

lemma basicConfig_fresh:
  "fresh_idents lg \<Longrightarrow> basicConfig w f m fm df lg = Inr lg1 \<Longrightarrow> fresh_idents lg1"
  by (auto simp: basicConfig_def fresh_idents_def split: if_splits option.splits)

lemma logging_setup_result:
  assumes "fresh_idents lg"
    "basicConfig w (joinpath (user_data_dir w) ''spoolman.log'') ''w''
       ''%(asctime)s:%(levelname)s:%(message)s'' ''%Y-%m-%d %I:%M:%S%p'' lg = Inr lg1"
  shows "logging_setup env w lg =
     Inr (lg1\<lparr>spoolman_level := get_logging_level env, next_ident := Suc (next_ident lg1),
              root_handlers := root_handlers lg1 @
                [\<lparr>ident = next_ident lg1, kind = StreamHandler,
                  hlevel = get_logging_level env,
                  fmt = ''%(name)-12s: %(levelname)-8s %(message)s'', datefmt = None\<rparr>]\<rparr>)"
proof -
  have f: "fresh_idents (lg1\<lparr>spoolman_level := get_logging_level env\<rparr>)"
    using basicConfig_fresh [OF assms] by (simp add: fresh_idents_def)
  show ?thesis
    using assms(2)
      addHandler_fresh [OF f, of "\<lparr>ident = next_ident lg1, kind = StreamHandler,
        hlevel = get_logging_level env,
        fmt = ''%(name)-12s: %(levelname)-8s %(message)s'', datefmt = None\<rparr>"]
    by (simp add: logging_setup_def Let_def)
qed

lemma logging_setup_fresh:
  assumes "fresh_idents lg" "logging_setup env w lg = Inr lg1"
  shows "fresh_idents lg1 \<and> root_handlers lg1 \<noteq> []"
proof -
  obtain lg0 where b: "basicConfig w (joinpath (user_data_dir w) ''spoolman.log'') ''w''
      ''%(asctime)s:%(levelname)s:%(message)s'' ''%Y-%m-%d %I:%M:%S%p'' lg = Inr lg0"
    using assms(2) by (auto simp: logging_setup_def split: sum.splits)
  have f0: "fresh_idents lg0"
    using basicConfig_fresh [OF assms(1) b] .
  have "lg1 = lg0\<lparr>spoolman_level := get_logging_level env,
               next_ident := Suc (next_ident lg0),
               root_handlers := root_handlers lg0 @
                 [\<lparr>ident = next_ident lg0, kind = StreamHandler,
                   hlevel = get_logging_level env,
                   fmt = ''%(name)-12s: %(levelname)-8s %(message)s'', datefmt = None\<rparr>]\<rparr>"
    using logging_setup_result [OF assms(1) b, of env] assms(2) by simp
  then show ?thesis
    using f0 by (auto simp: fresh_idents_def list_all_iff)
qed

lemma logging_setup_again:
  assumes "fresh_idents lg" "root_handlers lg \<noteq> []"
  shows "logging_setup env w lg =
     Inr (lg\<lparr>spoolman_level := get_logging_level env, next_ident := Suc (next_ident lg),
             root_handlers := root_handlers lg @
               [\<lparr>ident = next_ident lg, kind = StreamHandler,
                 hlevel = get_logging_level env,
                 fmt = ''%(name)-12s: %(levelname)-8s %(message)s'', datefmt = None\<rparr>]\<rparr>)"
  using logging_setup_result [OF assms(1) basicConfig_installed [OF assms(2)]] .

lemma fresh_initial_logging: "fresh_idents initial_logging"
  by (simp add: fresh_idents_def initial_logging_def)

lemma logging_setup_initial:
  assumes "open_file w (joinpath (user_data_dir w) ''spoolman.log'') = None"
  shows "\<exists>lg. logging_setup env w initial_logging = Inr lg"
  using assms by (simp add: logging_setup_def basicConfig_def initial_logging_def Let_def)

text \<open>
  Claim C7, as the code has it: when the logging setup has run once and runs again, the
  second run succeeds and leaves the file sinks as they were (\<^verbatim>\<open>basicConfig\<close> does
  nothing once the root logger has a handler), and it adds one more console sink: a new
  \<^verbatim>\<open>StreamHandler\<close> is created and added to the root logger on every run.
\<close>

theorem reinvocation_adds_console_sink:
  assumes "fresh_idents lg" "logging_setup_times 1 env w lg = Inr lg1"
  shows "\<exists>lg2. logging_setup_times 2 env w lg = Inr lg2 \<and>
           file_sinks lg2 = file_sinks lg1 \<and>
           length (console_sinks lg2) = Suc (length (console_sinks lg1))"
proof -
  have one: "logging_setup env w lg = Inr lg1"
    using assms(2) by (simp split: sum.splits)
  have f1: "fresh_idents lg1" and ne: "root_handlers lg1 \<noteq> []"
    using logging_setup_fresh [OF assms(1) one] by simp_all
  let ?lg2 = "lg1\<lparr>spoolman_level := get_logging_level env,
                  next_ident := Suc (next_ident lg1),
                  root_handlers := root_handlers lg1 @
                    [\<lparr>ident = next_ident lg1, kind = StreamHandler,
                      hlevel = get_logging_level env,
                      fmt = ''%(name)-12s: %(levelname)-8s %(message)s'',
                      datefmt = None\<rparr>]\<rparr>"
  have two: "logging_setup env w lg1 = Inr ?lg2"
    using logging_setup_again [OF f1 ne] .
  have "logging_setup_times 2 env w lg = Inr ?lg2"
    using one two by (simp add: numeral_2_eq_2)
  moreover have "file_sinks ?lg2 = file_sinks lg1"
    by (simp add: file_sinks_def)
  moreover have "length (console_sinks ?lg2) = Suc (length (console_sinks lg1))"
    by (simp add: console_sinks_def)
  ultimately show ?thesis by blast
qed

theorem reinvocation_adds_console_sink_witness:
  "fresh_idents initial_logging \<and>
   (\<exists>lg1 lg2. logging_setup_times 1 env_unset world_ok initial_logging = Inr lg1 \<and>
      logging_setup_times 2 env_unset world_ok initial_logging = Inr lg2 \<and>
      file_sinks lg2 = file_sinks lg1 \<and>
      length (console_sinks lg2) = Suc (length (console_sinks lg1)))"
proof -
  have f: "fresh_idents initial_logging"
    by (simp add: fresh_idents_def initial_logging_def)
  obtain lg1 where one: "logging_setup_times 1 env_unset world_ok initial_logging = Inr lg1"
    by (simp add: logging_setup_def basicConfig_def initial_logging_def world_ok_def Let_def)
  show ?thesis
    using f one reinvocation_adds_console_sink [OF f one] by blast
qed

text \<open>
  Claim C7 as stated fails: in a new process, one run of the logging setup leaves the
  root logger with the file handler and one console handler, and two runs leave it with
  the file handler and two console handlers.
\<close>

theorem logging_setup_idempotent_counterexample:
  "logging_setup_times 1 env_unset world_ok initial_logging =
     Inr \<lparr>root_handlers =
            [\<lparr>ident = 0,
              kind = FileHandler ''/home/u/.local/share/spoolman/spoolman.log'' ''w'',
              hlevel = 0, fmt = ''%(asctime)s:%(levelname)s:%(message)s'',
              datefmt = Some ''%Y-%m-%d %I:%M:%S%p''\<rparr>,
             \<lparr>ident = 1, kind = StreamHandler, hlevel = 20,
              fmt = ''%(name)-12s: %(levelname)-8s %(message)s'', datefmt = None\<rparr>],
          spoolman_level = 20, next_ident = 2\<rparr> \<and>
   logging_setup_times 2 env_unset world_ok initial_logging =
     Inr \<lparr>root_handlers =
            [\<lparr>ident = 0,
              kind = FileHandler ''/home/u/.local/share/spoolman/spoolman.log'' ''w'',
              hlevel = 0, fmt = ''%(asctime)s:%(levelname)s:%(message)s'',
              datefmt = Some ''%Y-%m-%d %I:%M:%S%p''\<rparr>,
             \<lparr>ident = 1, kind = StreamHandler, hlevel = 20,
              fmt = ''%(name)-12s: %(levelname)-8s %(message)s'', datefmt = None\<rparr>,
             \<lparr>ident = 2, kind = StreamHandler, hlevel = 20,
              fmt = ''%(name)-12s: %(levelname)-8s %(message)s'', datefmt = None\<rparr>],
          spoolman_level = 20, next_ident = 3\<rparr>"
  by (simp add: numeral_2_eq_2 logging_setup_def basicConfig_def addHandler_def
      initial_logging_def world_ok_def env_unset_def joinpath_def Let_def)

subsection \<open>The application\<close>

text \<open>
  Claim C5: when the application is composed in debug mode, the middleware installed is
  the one that allows every origin, every method and every header, with credentials, and
  a warning that says so is logged; when it is composed outside debug mode, no
  middleware is installed and nothing is logged.
\<close>

theorem debug_mode_decides_cors:
  "(is_debug_mode env \<longrightarrow>
      user_middleware (fst (create_app env)) =
        [\<lparr>allow_origins = [''*''], allow_credentials = True, allow_methods = [''*''],
          allow_headers = [''*'']\<rparr>] \<and>
      snd (create_app env) =
        [LogRecord WARNING ''Running in debug mode, allowing all origins.'' []]) \<and>
   (\<not> is_debug_mode env \<longrightarrow>
      user_middleware (fst (create_app env)) = [] \<and> snd (create_app env) = [])"
  by (simp add: create_app_def mount_def add_middleware_def Let_def)

theorem debug_mode_decides_cors_witness:
  "is_debug_mode env_debug \<and>
   user_middleware (fst (create_app env_debug)) =
     [\<lparr>allow_origins = [''*''], allow_credentials = True, allow_methods = [''*''],
       allow_headers = [''*'']\<rparr>] \<and>
   snd (create_app env_debug) =
     [LogRecord WARNING ''Running in debug mode, allowing all origins.'' []] \<and>
   \<not> is_debug_mode env_unset \<and>
   user_middleware (fst (create_app env_unset)) = [] \<and> snd (create_app env_unset) = []"
proof -
  have d: "is_debug_mode env_debug"
    by (simp add: env_debug_def)
  have n: "\<not> is_debug_mode env_unset"
    by (simp add: env_unset_def)
  show ?thesis
    using d n debug_mode_decides_cors [of env_debug] debug_mode_decides_cors [of env_unset]
    by blast
qed

subsection \<open>The process\<close>

lemma module_body_mkdir_fails:
  "mkdir w (user_data_dir w) = Some e \<Longrightarrow> module_body env w p = p\<lparr>failure := Some e\<rparr>"
  by (simp add: module_body_def)

lemma module_body_logging_fails:
  "mkdir w (user_data_dir w) = None \<Longrightarrow> logging_setup env w (logging_state p) = Inl e \<Longrightarrow>
   module_body env w p = p\<lparr>entered := entered p @ [LoggingSetup], failure := Some e\<rparr>"
  by (simp add: module_body_def Let_def)

lemma module_body_composition_fails:
  "mkdir w (user_data_dir w) = None \<Longrightarrow> logging_setup env w (logging_state p) = Inr lg \<Longrightarrow>
   check_dir w ''client/dist'' = Some e \<Longrightarrow>
   module_body env w p =
     p\<lparr>entered := entered p @ [LoggingSetup], logging_state := lg, failure := Some e\<rparr>"
  by (simp add: module_body_def Let_def)

lemma module_body_succeeds:
  "mkdir w (user_data_dir w) = None \<Longrightarrow> logging_setup env w (logging_state p) = Inr lg \<Longrightarrow>
   check_dir w ''client/dist'' = None \<Longrightarrow>
   module_body env w p =
     p\<lparr>entered := entered p @ [LoggingSetup], logging_state := lg,
       application := Some (fst (create_app env)),
       emitted := emitted p @ snd (create_app env)\<rparr>"
  by (simp add: module_body_def Let_def split: prod.split)

lemma startup_descriptor_fails:
  "get_connection_url env (user_data_dir w) = Inl e \<Longrightarrow>
   startup env w p = p\<lparr>entered := entered p @ [DescriptorConstruction], failure := Some e\<rparr>"
  by (simp add: startup_def Let_def)

lemma startup_storage_fails:
  "get_connection_url env (user_data_dir w) = Inr (url, recs) \<Longrightarrow> setup_db w url = Some e \<Longrightarrow>
   startup env w p =
     p\<lparr>entered := entered p @ [DescriptorConstruction, StorageInitialization],
       emitted := emitted p @ recs, storage_calls := storage_calls p @ [url],
       failure := Some e\<rparr>"
  by (simp add: startup_def Let_def)

lemma startup_succeeds:
  "get_connection_url env (user_data_dir w) = Inr (url, recs) \<Longrightarrow> setup_db w url = None \<Longrightarrow>
   startup env w p =
     p\<lparr>entered := entered p @ [DescriptorConstruction, StorageInitialization],
       emitted := emitted p @ recs, storage_calls := storage_calls p @ [url]\<rparr>"
  by (simp add: startup_def Let_def)

lemma main_mkdir_fails:
  assumes "mkdir w (user_data_dir w) = Some e"
  shows "entered (main env w) = [] \<and> failure (main env w) = Some e \<and>
         storage_calls (main env w) = []"
  using assms by (simp add: main_def module_body_mkdir_fails initial_proc_def)

lemma main_logging_fails:
  assumes "mkdir w (user_data_dir w) = None" "logging_setup env w initial_logging = Inl e"
  shows "entered (main env w) = [LoggingSetup] \<and> failure (main env w) = Some e \<and>
         storage_calls (main env w) = []"
  using assms by (simp add: main_def module_body_logging_fails initial_proc_def)

lemma main_composition_fails:
  assumes "mkdir w (user_data_dir w) = None" "logging_setup env w initial_logging = Inr lg"
    "check_dir w ''client/dist'' = Some e"
  shows "entered (main env w) = [LoggingSetup] \<and> failure (main env w) = Some e \<and>
         storage_calls (main env w) = []"
  using assms by (simp add: main_def module_body_composition_fails initial_proc_def)

lemma main_descriptor_fails:
  assumes "mkdir w (user_data_dir w) = None" "logging_setup env w initial_logging = Inr lg"
    "check_dir w ''client/dist'' = None"
    "get_connection_url env (user_data_dir w) = Inl e"
  shows "entered (main env w) = [LoggingSetup, DescriptorConstruction] \<and>
         failure (main env w) = Some e \<and> storage_calls (main env w) = []"
  using assms
  by (simp add: main_def module_body_succeeds uvicorn_run_def startup_descriptor_fails
      initial_proc_def)

lemma main_storage_fails:
  assumes "mkdir w (user_data_dir w) = None" "logging_setup env w initial_logging = Inr lg"
    "check_dir w ''client/dist'' = None"
    "get_connection_url env (user_data_dir w) = Inr (url, recs)" "setup_db w url = Some e"
  shows "entered (main env w) = [LoggingSetup, DescriptorConstruction, StorageInitialization] \<and>
         failure (main env w) = Some e \<and> storage_calls (main env w) = [url]"
  using assms
  by (simp add: main_def module_body_succeeds uvicorn_run_def startup_storage_fails
      initial_proc_def)

lemma main_bind_fails:
  assumes "mkdir w (user_data_dir w) = None" "logging_setup env w initial_logging = Inr lg"
    "check_dir w ''client/dist'' = None"
    "get_connection_url env (user_data_dir w) = Inr (url, recs)" "setup_db w url = None"
    "bind w ''0.0.0.0'' 8000 = Some e"
  shows "entered (main env w) = [LoggingSetup, DescriptorConstruction, StorageInitialization] \<and>
         failure (main env w) = Some e \<and> storage_calls (main env w) = [url]"
  using assms
  by (simp add: main_def module_body_succeeds uvicorn_run_def startup_succeeds
      initial_proc_def)

lemma main_serves:
  assumes "mkdir w (user_data_dir w) = None" "logging_setup env w initial_logging = Inr lg"
    "check_dir w ''client/dist'' = None"
    "get_connection_url env (user_data_dir w) = Inr (url, recs)" "setup_db w url = None"
    "bind w ''0.0.0.0'' 8000 = None"
  shows "entered (main env w) = stage_order \<and> failure (main env w) = None \<and>
         storage_calls (main env w) = [url]"
  using assms
  by (simp add: main_def module_body_succeeds uvicorn_run_def startup_succeeds
      initial_proc_def stage_order_def)

text \<open>
  A run in which \<^verbatim>\<open>get_connection_url\<close> would raise ends at or before the descriptor
  construction.
\<close>

lemma main_descriptor_raises:
  assumes "get_connection_url env (user_data_dir w) = Inl e"
  shows "storage_calls (main env w) = [] \<and> failure (main env w) \<noteq> None \<and>
         (entered (main env w) = [] \<or> entered (main env w) = [LoggingSetup] \<or>
          entered (main env w) = [LoggingSetup, DescriptorConstruction])"
proof (cases "mkdir w (user_data_dir w)")
  case (Some e')
  then show ?thesis
    using main_mkdir_fails [of w e' env] by simp
next
  case None
  note mk = None
  show ?thesis
  proof (cases "logging_setup env w initial_logging")
    case (Inl e')
    then show ?thesis
      using main_logging_fails [OF mk, of env e'] by simp
  next
    case (Inr lg)
    show ?thesis
    proof (cases "check_dir w ''client/dist''")
      case (Some e')
      then show ?thesis
        using main_composition_fails [OF mk Inr, of e'] by simp
    next
      case None
      then show ?thesis
        using main_descriptor_fails [OF mk Inr None assms] by simp
    qed
  qed
qed

text \<open>Every run ends in one of the places of failure, or serves.\<close>

lemma main_cases:
  "(entered (main env w) = [] \<and> failure (main env w) \<noteq> None) \<or>
   (entered (main env w) = [LoggingSetup] \<and> failure (main env w) \<noteq> None) \<or>
   (entered (main env w) = [LoggingSetup, DescriptorConstruction] \<and>
      failure (main env w) \<noteq> None) \<or>
   (entered (main env w) = [LoggingSetup, DescriptorConstruction, StorageInitialization] \<and>
      failure (main env w) \<noteq> None) \<or>
   (entered (main env w) = stage_order \<and> failure (main env w) = None)"
proof (cases "get_connection_url env (user_data_dir w)")
  case (Inl e)
  then show ?thesis
    using main_descriptor_raises [OF Inl] by blast
next
  case (Inr r)
  obtain url recs where g: "get_connection_url env (user_data_dir w) = Inr (url, recs)"
    using Inr by (cases r) simp
  show ?thesis
  proof (cases "mkdir w (user_data_dir w)")
    case (Some e)
    then show ?thesis
      using main_mkdir_fails [of w e env] by simp
  next
    case None
    note mk = None
    show ?thesis
    proof (cases "logging_setup env w initial_logging")
      case (Inl e)
      then show ?thesis
        using main_logging_fails [OF mk, of env e] by simp
    next
      case (Inr lg)
      note lg = Inr
      show ?thesis
      proof (cases "check_dir w ''client/dist''")
        case (Some e)
        then show ?thesis
          using main_composition_fails [OF mk lg, of e] by simp
      next
        case None
        note cd = None
        show ?thesis
        proof (cases "setup_db w url")
          case (Some e)
          then show ?thesis
            using main_storage_fails [OF mk lg cd g] by simp
        next
          case None
          note db = None
          show ?thesis
          proof (cases "bind w ''0.0.0.0'' 8000")
            case None
            then show ?thesis
              using main_serves [OF mk lg cd g db] by simp
          next
            case (Some e)
            then show ?thesis
              using main_bind_fails [OF mk lg cd g db] by simp
          qed
        qed
      qed
    qed
  qed
qed

text \<open>
  Claim C4: the stages of a run are entered in the order logging setup, descriptor
  construction, storage initialization, serving, each at most once and none skipped.
  Serving is entered exactly when nothing has failed; a run that has failed has not
  entered it. A failure of the logging setup, or of the composition of the application
  that follows it, ends the run there; with the application composed, a failure of
  \<^verbatim>\<open>get_connection_url\<close> ends the run before \<^verbatim>\<open>setup_db\<close> is called, and a failure of
  \<^verbatim>\<open>setup_db\<close>, or of the binding of the address after it, ends the run before serving.
\<close>

theorem startup_is_linear_and_monotonic:
  "prefix (entered (main env w)) stage_order \<and>
   (Serving \<in> set (entered (main env w)) \<longleftrightarrow> failure (main env w) = None) \<and>
   (failure (main env w) = None \<longleftrightarrow> entered (main env w) = stage_order) \<and>
   (mkdir w (user_data_dir w) = None \<longrightarrow> logging_setup env w initial_logging = Inl e1 \<longrightarrow>
      entered (main env w) = [LoggingSetup] \<and> failure (main env w) = Some e1 \<and>
      storage_calls (main env w) = []) \<and>
   (mkdir w (user_data_dir w) = None \<longrightarrow> logging_setup env w initial_logging = Inr lg \<longrightarrow>
    check_dir w ''client/dist'' = Some e2 \<longrightarrow>
      entered (main env w) = [LoggingSetup] \<and> failure (main env w) = Some e2 \<and>
      storage_calls (main env w) = []) \<and>
   (mkdir w (user_data_dir w) = None \<longrightarrow> logging_setup env w initial_logging = Inr lg \<longrightarrow>
    check_dir w ''client/dist'' = None \<longrightarrow>
    get_connection_url env (user_data_dir w) = Inl e3 \<longrightarrow>
      entered (main env w) = [LoggingSetup, DescriptorConstruction] \<and>
      failure (main env w) = Some e3 \<and> storage_calls (main env w) = []) \<and>
   (mkdir w (user_data_dir w) = None \<longrightarrow> logging_setup env w initial_logging = Inr lg \<longrightarrow>
    check_dir w ''client/dist'' = None \<longrightarrow>
    get_connection_url env (user_data_dir w) = Inr (url, recs) \<longrightarrow>
    setup_db w url = Some e4 \<longrightarrow>
      entered (main env w) = [LoggingSetup, DescriptorConstruction, StorageInitialization] \<and>
      failure (main env w) = Some e4) \<and>
   (mkdir w (user_data_dir w) = None \<longrightarrow> logging_setup env w initial_logging = Inr lg \<longrightarrow>
    check_dir w ''client/dist'' = None \<longrightarrow>
    get_connection_url env (user_data_dir w) = Inr (url, recs) \<longrightarrow>
    setup_db w url = None \<longrightarrow> bind w ''0.0.0.0'' 8000 = Some e5 \<longrightarrow>
      entered (main env w) = [LoggingSetup, DescriptorConstruction, StorageInitialization] \<and>
      failure (main env w) = Some e5)"
proof -
  have a: "prefix (entered (main env w)) stage_order"
    using main_cases [of env w] by (auto simp: stage_order_def)
  have b: "Serving \<in> set (entered (main env w)) \<longleftrightarrow> failure (main env w) = None"
    using main_cases [of env w] by (auto simp: stage_order_def)
  have c: "failure (main env w) = None \<longleftrightarrow> entered (main env w) = stage_order"
    using main_cases [of env w] by (auto simp: stage_order_def)
  have d: "mkdir w (user_data_dir w) = None \<longrightarrow>
      logging_setup env w initial_logging = Inl e1 \<longrightarrow>
      entered (main env w) = [LoggingSetup] \<and> failure (main env w) = Some e1 \<and>
      storage_calls (main env w) = []"
    using main_logging_fails [of w env e1] by simp
  have e: "mkdir w (user_data_dir w) = None \<longrightarrow>
      logging_setup env w initial_logging = Inr lg \<longrightarrow>
      check_dir w ''client/dist'' = Some e2 \<longrightarrow>
      entered (main env w) = [LoggingSetup] \<and> failure (main env w) = Some e2 \<and>
      storage_calls (main env w) = []"
    using main_composition_fails [of w env lg e2] by simp
  have f: "mkdir w (user_data_dir w) = None \<longrightarrow>
      logging_setup env w initial_logging = Inr lg \<longrightarrow>
      check_dir w ''client/dist'' = None \<longrightarrow>
      get_connection_url env (user_data_dir w) = Inl e3 \<longrightarrow>
      entered (main env w) = [LoggingSetup, DescriptorConstruction] \<and>
      failure (main env w) = Some e3 \<and> storage_calls (main env w) = []"
    using main_descriptor_fails [of w env lg e3] by simp
  have g: "mkdir w (user_data_dir w) = None \<longrightarrow>
      logging_setup env w initial_logging = Inr lg \<longrightarrow>
      check_dir w ''client/dist'' = None \<longrightarrow>
      get_connection_url env (user_data_dir w) = Inr (url, recs) \<longrightarrow>
      setup_db w url = Some e4 \<longrightarrow>
      entered (main env w) = [LoggingSetup, DescriptorConstruction, StorageInitialization] \<and>
      failure (main env w) = Some e4"
    using main_storage_fails [of w env lg url recs e4] by simp
  have h: "mkdir w (user_data_dir w) = None \<longrightarrow>
      logging_setup env w initial_logging = Inr lg \<longrightarrow>
      check_dir w ''client/dist'' = None \<longrightarrow>
      get_connection_url env (user_data_dir w) = Inr (url, recs) \<longrightarrow>
      setup_db w url = None \<longrightarrow> bind w ''0.0.0.0'' 8000 = Some e5 \<longrightarrow>
      entered (main env w) = [LoggingSetup, DescriptorConstruction, StorageInitialization] \<and>
      failure (main env w) = Some e5"
    using main_bind_fails [of w env lg url recs e5] by simp
  show ?thesis
    using a b c d e f g h by (intro conjI)
qed

theorem startup_is_linear_and_monotonic_witness:
  "entered (main env_unset world_no_log_file) = [LoggingSetup] \<and>
   failure (main env_unset world_no_log_file) = Some DirectoryError \<and>
   entered (main env_unset world_no_static_dir) = [LoggingSetup] \<and>
   failure (main env_unset world_no_static_dir) = Some StaticDirectoryError \<and>
   entered (main env_unknown_type world_ok) = [LoggingSetup, DescriptorConstruction] \<and>
   failure (main env_unknown_type world_ok) = Some ConfigurationError \<and>
   storage_calls (main env_unknown_type world_ok) = [] \<and>
   entered (main env_postgres world_no_storage) =
     [LoggingSetup, DescriptorConstruction, StorageInitialization] \<and>
   failure (main env_postgres world_no_storage) = Some StorageError \<and>
   entered (main env_postgres world_port_taken) =
     [LoggingSetup, DescriptorConstruction, StorageInitialization] \<and>
   failure (main env_postgres world_port_taken) = Some BindError \<and>
   Serving \<in> set (entered (main env_postgres world_ok)) \<and>
   failure (main env_postgres world_ok) = None"
proof -
  have m1: "mkdir world_no_log_file (user_data_dir world_no_log_file) = None"
    and m2: "mkdir world_ok (user_data_dir world_ok) = None"
    and m3: "mkdir world_no_storage (user_data_dir world_no_storage) = None"
    and m5: "mkdir world_no_static_dir (user_data_dir world_no_static_dir) = None"
    and m6: "mkdir world_port_taken (user_data_dir world_port_taken) = None"
    by (simp_all add: world_ok_def world_no_log_file_def world_no_storage_def
        world_no_static_dir_def world_port_taken_def)
  have c2: "check_dir world_ok ''client/dist'' = None"
    and c3: "check_dir world_no_storage ''client/dist'' = None"
    and c5: "check_dir world_no_static_dir ''client/dist'' = Some StaticDirectoryError"
    and c6: "check_dir world_port_taken ''client/dist'' = None"
    by (simp_all add: world_ok_def world_no_storage_def world_no_static_dir_def
        world_port_taken_def)
  have l1: "logging_setup env_unset world_no_log_file initial_logging = Inl DirectoryError"
    by (simp add: logging_setup_def basicConfig_def initial_logging_def world_ok_def
        world_no_log_file_def)
  obtain lg2 where l2: "logging_setup env_unknown_type world_ok initial_logging = Inr lg2"
    using logging_setup_initial [of world_ok env_unknown_type] by (auto simp: world_ok_def)
  obtain lg3 where l3: "logging_setup env_postgres world_no_storage initial_logging = Inr lg3"
    using logging_setup_initial [of world_no_storage env_postgres]
    by (auto simp: world_ok_def world_no_storage_def)
  obtain lg4 where l4: "logging_setup env_postgres world_ok initial_logging = Inr lg4"
    using logging_setup_initial [of world_ok env_postgres] by (auto simp: world_ok_def)
  obtain lg5 where l5: "logging_setup env_unset world_no_static_dir initial_logging = Inr lg5"
    using logging_setup_initial [of world_no_static_dir env_unset]
    by (auto simp: world_ok_def world_no_static_dir_def)
  obtain lg6 where l6: "logging_setup env_postgres world_port_taken initial_logging = Inr lg6"
    using logging_setup_initial [of world_port_taken env_postgres]
    by (auto simp: world_ok_def world_port_taken_def)
  have g2: "get_connection_url env_unknown_type (user_data_dir world_ok) =
      Inl ConfigurationError"
    by (simp add: get_connection_url_def env_unknown_type_def read_database_type_def)
  obtain url recs where g3:
    "get_connection_url env_postgres (user_data_dir world_no_storage) = Inr (url, recs)"
    by (simp add: get_connection_url_def env_postgres_def env_network_fields_def env_unset_def
        build_url_def)
  have s3: "setup_db world_no_storage url = Some StorageError"
    by (simp add: world_no_storage_def)
  obtain url4 recs4 where g4:
    "get_connection_url env_postgres (user_data_dir world_ok) = Inr (url4, recs4)"
    by (simp add: get_connection_url_def env_postgres_def env_network_fields_def env_unset_def
        build_url_def)
  have s4: "setup_db world_ok url4 = None"
    by (simp add: world_ok_def)
  have b4: "bind world_ok ''0.0.0.0'' 8000 = None"
    by (simp add: world_ok_def)
  obtain url6 recs6 where g6:
    "get_connection_url env_postgres (user_data_dir world_port_taken) = Inr (url6, recs6)"
    by (simp add: get_connection_url_def env_postgres_def env_network_fields_def env_unset_def
        build_url_def)
  have s6: "setup_db world_port_taken url6 = None"
    by (simp add: world_ok_def world_port_taken_def)
  have b6: "bind world_port_taken ''0.0.0.0'' 8000 = Some BindError"
    by (simp add: world_port_taken_def)
  have f4: "failure (main env_postgres world_ok) = None"
    using main_serves [OF m2 l4 c2 g4 s4 b4] by simp
  have a: "entered (main env_unset world_no_log_file) = [LoggingSetup] \<and>
      failure (main env_unset world_no_log_file) = Some DirectoryError"
    using startup_is_linear_and_monotonic [of env_unset world_no_log_file DirectoryError]
      m1 l1
    by simp
  have a': "entered (main env_unset world_no_static_dir) = [LoggingSetup] \<and>
      failure (main env_unset world_no_static_dir) = Some StaticDirectoryError"
    using startup_is_linear_and_monotonic
        [of env_unset world_no_static_dir _ lg5 StaticDirectoryError] m5 l5 c5
    by simp
  have b: "entered (main env_unknown_type world_ok) =
        [LoggingSetup, DescriptorConstruction] \<and>
      failure (main env_unknown_type world_ok) = Some ConfigurationError \<and>
      storage_calls (main env_unknown_type world_ok) = []"
    using startup_is_linear_and_monotonic
        [of env_unknown_type world_ok _ lg2 _ ConfigurationError] m2 l2 c2 g2
    by simp
  have c: "entered (main env_postgres world_no_storage) =
        [LoggingSetup, DescriptorConstruction, StorageInitialization] \<and>
      failure (main env_postgres world_no_storage) = Some StorageError"
    using startup_is_linear_and_monotonic
        [of env_postgres world_no_storage _ lg3 _ _ url recs StorageError] m3 l3 c3 g3 s3
    by simp
  have c': "entered (main env_postgres world_port_taken) =
        [LoggingSetup, DescriptorConstruction, StorageInitialization] \<and>
      failure (main env_postgres world_port_taken) = Some BindError"
    using startup_is_linear_and_monotonic
        [of env_postgres world_port_taken _ lg6 _ _ url6 recs6 _ BindError] m6 l6 c6 g6 s6 b6
    by simp
  have d: "Serving \<in> set (entered (main env_postgres world_ok))"
    using startup_is_linear_and_monotonic
        [of env_postgres world_ok, THEN conjunct2, THEN conjunct1] f4
    by simp
  show ?thesis
    using a a' b c c' d f4 by simp
qed

text \<open>
  Claim C3: when the value of the database type names no variant, reading it is a
  configuration error, \<^verbatim>\<open>get_connection_url\<close> raises that error and returns no URL, and
  the run of the process ends in failure without a call of \<^verbatim>\<open>setup_db\<close>, without a
  second attempt at the descriptor, and without serving.
\<close>

theorem unrecognised_database_type_fails_fast:
  assumes "get_database_type env = read_database_type variant_of (Some s)"
    "variant_of s = None"
  shows "get_connection_url env dd = Inl ConfigurationError \<and>
         storage_calls (main env w) = [] \<and>
         failure (main env w) \<noteq> None \<and>
         StorageInitialization \<notin> set (entered (main env w)) \<and>
         Serving \<notin> set (entered (main env w)) \<and>
         count_list (entered (main env w)) DescriptorConstruction \<le> 1"
proof -
  have r: "get_database_type env = Inl ConfigurationError"
    using assms by (simp add: read_database_type_def)
  have g: "get_connection_url env dd' = Inl ConfigurationError" for dd'
    using get_connection_url_raises [OF r] .
  have "storage_calls (main env w) = [] \<and> failure (main env w) \<noteq> None \<and>
      (entered (main env w) = [] \<or> entered (main env w) = [LoggingSetup] \<or>
       entered (main env w) = [LoggingSetup, DescriptorConstruction])"
    using main_descriptor_raises [OF g] .
  then have "storage_calls (main env w) = [] \<and> failure (main env w) \<noteq> None \<and>
      StorageInitialization \<notin> set (entered (main env w)) \<and>
      Serving \<notin> set (entered (main env w)) \<and>
      count_list (entered (main env w)) DescriptorConstruction \<le> 1"
    by auto
  then show ?thesis
    using g by simp
qed

theorem unrecognised_database_type_fails_fast_witness:
  "get_database_type env_unknown_type = read_database_type example_variant_of (Some ''oracle'')
   \<and> example_variant_of ''oracle'' = None \<and>
   get_connection_url env_unknown_type ''/data'' = Inl ConfigurationError \<and>
   storage_calls (main env_unknown_type world_ok) = [] \<and>
   failure (main env_unknown_type world_ok) \<noteq> None \<and>
   Serving \<notin> set (entered (main env_unknown_type world_ok))"
proof -
  have h1: "get_database_type env_unknown_type =
      read_database_type example_variant_of (Some ''oracle'')"
    by (simp add: env_unknown_type_def)
  have h2: "example_variant_of ''oracle'' = None"
    by simp
  show ?thesis
    using h1 h2 unrecognised_database_type_fails_fast [OF h1 h2, of "''/data''" world_ok]
    by blast
qed

text \<open>
  Claim C6: when none of the connection settings is set, the URL has the driver of
  \<^verbatim>\<open>SQLITE\<close>, no host, port, username, password or query item, and as its database the
  file \<^verbatim>\<open>spoolman.db\<close> in the data directory; and when nothing outside the process
  fails (the data directory and the log file can be written, the directory of the
  static files exists, \<^verbatim>\<open>setup_db\<close> on that URL returns, the address can be bound), the
  run goes through every stage to serving, with \<^verbatim>\<open>setup_db\<close> called once, on that URL.
\<close>

theorem no_configuration_default_sqlite:
  assumes "get_database_type env = Inr None" "get_host env = Inr None"
    "get_port env = Inr None" "get_database env = Inr None" "get_query env = Inr None"
    "get_username env = Inr None" "get_password env = Inr None"
  shows "(\<exists>recs. get_connection_url env dd =
            Inr (\<lparr>drivername = to_drivername env SQLITE, username = None, password = None,
                  host = None, port = None,
                  database = Some (joinpath dd ''spoolman.db''), query = []\<rparr>, recs)) \<and>
         (mkdir w (user_data_dir w) = None \<longrightarrow>
          open_file w (joinpath (user_data_dir w) ''spoolman.log'') = None \<longrightarrow>
          check_dir w ''client/dist'' = None \<longrightarrow>
          setup_db w \<lparr>drivername = to_drivername env SQLITE, username = None,
                      password = None, host = None, port = None,
                      database = Some (joinpath (user_data_dir w) ''spoolman.db''),
                      query = []\<rparr> = None \<longrightarrow>
          bind w ''0.0.0.0'' 8000 = None \<longrightarrow>
            entered (main env w) = stage_order \<and> failure (main env w) = None \<and>
            storage_calls (main env w) =
              [\<lparr>drivername = to_drivername env SQLITE, username = None, password = None,
                host = None, port = None,
                database = Some (joinpath (user_data_dir w) ''spoolman.db''),
                query = []\<rparr>])"
proof -
  have g: "get_connection_url env dd' =
      Inr (\<lparr>drivername = to_drivername env SQLITE, username = None, password = None,
            host = None, port = None, database = Some (joinpath dd' ''spoolman.db''),
            query = []\<rparr>, snd (build_url env dd' None None None None None None None))"
    for dd'
  proof -
    have "get_connection_url env dd' =
        Inr (fst (build_url env dd' None None None None None None None),
             snd (build_url env dd' None None None None None None None))"
      using get_connection_url_returns [OF assms, of dd'] by simp
    then show ?thesis
      by (simp add: build_url_absent or_empty_eq)
  qed
  have first: "\<exists>recs. get_connection_url env dd =
      Inr (\<lparr>drivername = to_drivername env SQLITE, username = None, password = None,
            host = None, port = None, database = Some (joinpath dd ''spoolman.db''),
            query = []\<rparr>, recs)"
    using g [of dd] by blast
  have second: "entered (main env w) = stage_order \<and> failure (main env w) = None \<and>
      storage_calls (main env w) =
        [\<lparr>drivername = to_drivername env SQLITE, username = None, password = None,
          host = None, port = None,
          database = Some (joinpath (user_data_dir w) ''spoolman.db''), query = []\<rparr>]"
    if mk: "mkdir w (user_data_dir w) = None"
      and op: "open_file w (joinpath (user_data_dir w) ''spoolman.log'') = None"
      and cd: "check_dir w ''client/dist'' = None"
      and db: "setup_db w \<lparr>drivername = to_drivername env SQLITE, username = None,
                 password = None, host = None, port = None,
                 database = Some (joinpath (user_data_dir w) ''spoolman.db''),
                 query = []\<rparr> = None"
      and bd: "bind w ''0.0.0.0'' 8000 = None"
  proof -
    obtain lg where lg: "logging_setup env w initial_logging = Inr lg"
      using logging_setup_initial [OF op, of env] by blast
    show ?thesis
      using main_serves [OF mk lg cd g [of "user_data_dir w"] db bd] .
  qed
  show ?thesis
    using first second by blast
qed

theorem no_configuration_default_sqlite_witness:
  "get_database_type env_unset = Inr None \<and>
   (\<exists>recs. get_connection_url env_unset ''/data'' =
      Inr (\<lparr>drivername = ''sqlite+aiosqlite'', username = None, password = None,
            host = None, port = None, database = Some ''/data/spoolman.db'',
            query = []\<rparr>, recs)) \<and>
   entered (main env_unset world_ok) =
     [LoggingSetup, DescriptorConstruction, StorageInitialization, Serving] \<and>
   failure (main env_unset world_ok) = None \<and>
   storage_calls (main env_unset world_ok) =
     [\<lparr>drivername = ''sqlite+aiosqlite'', username = None, password = None,
       host = None, port = None,
       database = Some ''/home/u/.local/share/spoolman/spoolman.db'', query = []\<rparr>]"
  using no_configuration_default_sqlite [of env_unset "''/data''" world_ok]
  by (simp add: env_unset_def world_ok_def joinpath_def stage_order_def)

end
